theory Spec2Isabelle
  imports Complex_Main "HOL-Library.Word"
begin

unbundle bit_operations_syntax

section \<open>The value types of the physics engine\<close>

text \<open>
  The plugin header \<^verbatim>\<open>src/plugin/utils.h\<close> converts records of the Bullet physics
  engine into the records of the scene graph. Bullet's scalar type \<^verbatim>\<open>btScalar\<close>
  and the C types \<^verbatim>\<open>float\<close> and \<^verbatim>\<open>double\<close> are embedded as \<^typ>\<open>real\<close>: the
  rounding of floating-point arithmetic is outside the embedding. The one place where
  the source narrows a scalar, the cast \<^verbatim>\<open>float(...)\<close>, stays visible as the
  operation \<open>to_float\<close> of the environment below, about which nothing is assumed.
\<close>

record btVector3 =
  vec_x :: real
  vec_y :: real
  vec_z :: real

record btVector4 =
  vec4_x :: real
  vec4_y :: real
  vec4_z :: real
  vec4_w :: real

record btQuaternion =
  quat_x :: real
  quat_y :: real
  quat_z :: real
  quat_w :: real

text \<open>
  Modelled from the spec: the members \<^verbatim>\<open>dot\<close>, \<^verbatim>\<open>cross\<close> and \<^verbatim>\<open>length\<close> of
  \<^verbatim>\<open>btVector3\<close> and the function \<^verbatim>\<open>btAsin\<close> are declared in Bullet's headers,
  which are not part of the plugin. They are the dot product, the cross product, the
  magnitude and the arcsine; \<^verbatim>\<open>btAsin\<close> brings its argument into the interval from
  \<open>-1\<close> to \<open>1\<close> first.
\<close>

definition btVector3_dot :: "btVector3 \<Rightarrow> btVector3 \<Rightarrow> real" where
  "btVector3_dot a b = vec_x a * vec_x b + vec_y a * vec_y b + vec_z a * vec_z b"

definition btVector3_cross :: "btVector3 \<Rightarrow> btVector3 \<Rightarrow> btVector3" where
  "btVector3_cross a b =
     \<lparr>vec_x = vec_y a * vec_z b - vec_z a * vec_y b,
      vec_y = vec_z a * vec_x b - vec_x a * vec_z b,
      vec_z = vec_x a * vec_y b - vec_y a * vec_x b\<rparr>"

definition btVector3_length :: "btVector3 \<Rightarrow> real" where
  "btVector3_length a = sqrt (btVector3_dot a a)"

definition btAsin :: "real \<Rightarrow> real" where
  "btAsin x = arcsin (max (- 1) (min 1 x))"

section \<open>The URDF records read by the plugin\<close>

text \<open>
  Modelled from the spec: the enumeration of geometry tags is declared in Bullet's URDF
  parser. The source compares the tag against seven constants; every other value of
  the tag is \<open>URDF_GEOM_OTHER\<close>.
\<close>

datatype UrdfGeomTypes =
    URDF_GEOM_SPHERE
  | URDF_GEOM_BOX
  | URDF_GEOM_CYLINDER
  | URDF_GEOM_MESH
  | URDF_GEOM_PLANE
  | URDF_GEOM_CAPSULE
  | URDF_GEOM_HEIGHTFIELD
  | URDF_GEOM_OTHER nat

text \<open>
  The tag of the mesh source: the plugin tests it against \<^verbatim>\<open>MEMORY_VERTICES\<close> only.
\<close>

datatype MeshFileType = MEMORY_VERTICES | MESH_FILE nat

record UrdfGeometry =
  m_type :: UrdfGeomTypes
  m_boxSize :: btVector3
  m_sphereRadius :: real
  m_capsuleRadius :: real
  m_capsuleHeight :: real
  m_planeNormal :: btVector3
  m_meshScale :: btVector3
  m_meshFileType :: MeshFileType
  m_meshFileName :: string
  m_vertices :: "btVector3 list"
  m_uvs :: "btVector3 list"
  m_normals :: "btVector3 list"
  m_indices :: "int list"

record 't UrdfShape =
  m_geometry :: UrdfGeometry
  m_linkLocalFrame :: 't

record UrdfMaterialColor =
  m_rgbaColor :: btVector4
  m_specularColor :: btVector3

record UrdfMaterial =
  m_textureFilename :: string
  m_matColor :: UrdfMaterialColor

section \<open>The records of the scene graph\<close>

text \<open>
  Modelled from the spec: the scene graph's headers are not among the sources. A pose is
  an origin, a quaternion (w first, as \<open>makePose\<close> fills it) and a scale; a mesh data
  block is four flat arrays; a material is a diffuse colour, a specular colour and a
  texture id; a mesh is built from a mesh data block or from a file name; a shape is
  either the default shape or a tag with a pose, a shared material that may be null and
  a shared mesh that may be null.
\<close>

type_synonym Vector3f = "real \<times> real \<times> real"
type_synonym Vector4f = "real \<times> real \<times> real \<times> real"

record Affine3f =
  origin :: Vector3f
  quat :: Vector4f
  scale :: Vector3f

record MeshData =
  vertices :: "real list"
  uvs :: "real list"
  normals :: "real list"
  indices :: "int list"

record Material =
  diffuse :: Vector4f
  specular :: Vector3f
  textureId :: int

datatype Mesh = Mesh_data MeshData | Mesh_file string

datatype ShapeType = Cube | Sphere | Cylinder | Capsule | Plane | Mesh | Heightfield

datatype Shape =
    Shape_default
  | Shape_of ShapeType Affine3f "Material option" "Mesh option"

fun shape_type :: "Shape \<Rightarrow> ShapeType option" where
  "shape_type Shape_default = None"
| "shape_type (Shape_of t p m g) = Some t"

fun shape_pose :: "Shape \<Rightarrow> Affine3f option" where
  "shape_pose Shape_default = None"
| "shape_pose (Shape_of t p m g) = Some p"

fun shape_material :: "Shape \<Rightarrow> Material option" where
  "shape_material Shape_default = None"
| "shape_material (Shape_of t p m g) = m"

fun shape_mesh :: "Shape \<Rightarrow> Mesh option" where
  "shape_mesh Shape_default = None"
| "shape_mesh (Shape_of t p m g) = g"

text \<open>
  The scene graph is the one mutable object the plugin touches. Its own state is the
  component \<open>registry\<close>, of a type the plugin does not look into; the component
  \<open>registerTexture_calls\<close> records, oldest first, the file names with which
  \<^verbatim>\<open>registerTexture\<close> has been called on it.
\<close>

record 'g SceneGraph =
  registry :: 'g
  registerTexture_calls :: "string list"

section \<open>The environment of the plugin\<close>

text \<open>
  What the plugin calls and does not define: the cast to \<^verbatim>\<open>float\<close>, the operations
  of \<^verbatim>\<open>btTransform\<close> (a type \<open>'t\<close>) and the axis-angle constructor of
  \<^verbatim>\<open>btQuaternion\<close>, the two constants of Bullet's shared-memory header, and the
  scene graph's \<^verbatim>\<open>registerTexture\<close>, which returns an id and a new registry.
\<close>

record ('t, 'g) env =
  to_float :: "real \<Rightarrow> real"
  getOrigin :: "'t \<Rightarrow> btVector3"
  getRotation :: "'t \<Rightarrow> btQuaternion"
  transform_inverse :: "'t \<Rightarrow> 't"
  transform_mult :: "'t \<Rightarrow> 't \<Rightarrow> 't"
  btTransform_quat :: "btQuaternion \<Rightarrow> 't"
  btQuaternion_axis_angle :: "btVector3 \<Rightarrow> real \<Rightarrow> btQuaternion"
  URDF_USE_MATERIAL_COLORS_FROM_MTL :: "32 word"
  VISUAL_SHAPE_MAX_PATH_LEN :: nat
  registerTexture :: "string \<Rightarrow> 'g \<Rightarrow> int \<times> 'g"

section \<open>makePose\<close>

definition makePose :: "('t, 'g) env \<Rightarrow> 't \<Rightarrow> btVector3 \<Rightarrow> Affine3f" where
  "makePose E frame scl =
     (let origin' = getOrigin E frame;
          quat' = getRotation E frame
      in \<lparr>origin = (to_float E (vec_x origin'), to_float E (vec_y origin'),
                    to_float E (vec_z origin')),
          quat = (to_float E (quat_w quat'), to_float E (quat_x quat'),
                  to_float E (quat_y quat'), to_float E (quat_z quat')),
          scale = (to_float E (vec_x scl), to_float E (vec_y scl),
                   to_float E (vec_z scl))\<rparr>)"

section \<open>getMeshData\<close>

text \<open>
  The four loops of \<open>getMeshData\<close> have one shape: the index runs from \<open>0\<close> up to a
  count, and each round pushes a few values to the back of a vector. \<open>push_loop\<close> is
  that loop; \<open>body i\<close> is what round \<open>i\<close> pushes. The calls of \<^verbatim>\<open>reserve\<close> set a
  capacity and leave the contents alone; they have no counterpart here.
\<close>

function push_loop :: "(nat \<Rightarrow> 'a list) \<Rightarrow> nat \<Rightarrow> nat \<Rightarrow> 'a list \<Rightarrow> 'a list" where
  "push_loop body n i acc =
     (if i < n then push_loop body n (Suc i) (acc @ body i) else acc)"
  by pat_completeness auto
termination
  by (relation "measure (\<lambda>(body, n, i, acc). n - i)") auto

declare push_loop.simps [simp del]

definition getMeshData :: "('t, 'g) env \<Rightarrow> UrdfGeometry \<Rightarrow> MeshData" where
  "getMeshData E geometry =
     (let verticesCount = length (m_vertices geometry);
          uvsCount = length (m_uvs geometry);
          normalsCount = length (m_normals geometry);
          indicesCount = length (m_indices geometry);
          vertices' = push_loop (\<lambda>i. let vertex = m_vertices geometry ! i
                                      in [to_float E (vec_x vertex), to_float E (vec_y vertex),
                                          to_float E (vec_z vertex)])
                        verticesCount 0 [];
          uvs' = push_loop (\<lambda>i. let uv = m_uvs geometry ! i
                                 in [to_float E (vec_x uv), to_float E (vec_y uv)])
                   uvsCount 0 [];
          normals' = push_loop (\<lambda>i. let normal = m_normals geometry ! i
                                     in [to_float E (vec_x normal), to_float E (vec_y normal),
                                         to_float E (vec_z normal)])
                       normalsCount 0 [];
          indices' = push_loop (\<lambda>i. [m_indices geometry ! i]) indicesCount 0 []
      in \<lparr>vertices = vertices', uvs = uvs', normals = normals', indices = indices'\<rparr>)"

section \<open>makeShape\<close>

text \<open>
  A call of \<^verbatim>\<open>graph.registerTexture(Texture{fname})\<close>: the scene graph answers with
  an id and its registry changes as the scene graph decides; the call is recorded.
\<close>

definition SceneGraph_registerTexture ::
    "('t, 'g) env \<Rightarrow> string \<Rightarrow> 'g SceneGraph \<Rightarrow> int \<times> 'g SceneGraph" where
  "SceneGraph_registerTexture E fname graph =
     (let (tid, registry') = registerTexture E fname (registry graph)
      in (tid, \<lparr>registry = registry',
                registerTexture_calls = registerTexture_calls graph @ [fname]\<rparr>))"

text \<open>
  The first part of \<open>makeShape\<close>, up to the construction of the material: the texture
  id is \<open>-1\<close> for an empty file name and the answer of \<^verbatim>\<open>registerTexture\<close> otherwise.
\<close>

definition makeShape_material ::
    "('t, 'g) env \<Rightarrow> UrdfMaterial \<Rightarrow> 'g SceneGraph \<Rightarrow> Material \<times> 'g SceneGraph" where
  "makeShape_material E urdfMaterial graph =
     (let fname = m_textureFilename urdfMaterial;
          (textureId', graph') =
            (if fname = [] then (- 1, graph) else SceneGraph_registerTexture E fname graph);
          d = m_rgbaColor (m_matColor urdfMaterial);
          s = m_specularColor (m_matColor urdfMaterial)
      in (\<lparr>diffuse = (to_float E (vec4_x d), to_float E (vec4_y d),
                      to_float E (vec4_z d), to_float E (vec4_w d)),
           specular = (to_float E (vec_x s), to_float E (vec_y s), to_float E (vec_z s)),
           textureId = textureId'\<rparr>, graph'))"

text \<open>
  The frame of a plane: when the normal is not close to the z axis, the frame is
  multiplied by the rotation about \<open>n \<times> z\<close> by the arcsine of that vector's length.
\<close>

definition makeShape_planeFrame :: "('t, 'g) env \<Rightarrow> 't \<Rightarrow> btVector3 \<Rightarrow> 't" where
  "makeShape_planeFrame E frame n =
     (let z = \<lparr>vec_x = 0, vec_y = 0, vec_z = 1\<rparr>
      in if btVector3_dot n z < 99 / 100
         then let axis = btVector3_cross n z;
                  quat' = btQuaternion_axis_angle E axis (btAsin (btVector3_length axis))
              in transform_mult E frame (btTransform_quat E quat')
         else frame)"

definition makeShape ::
    "('t, 'g) env \<Rightarrow> 't UrdfShape \<Rightarrow> UrdfMaterial \<Rightarrow> 't \<Rightarrow> 32 word \<Rightarrow> 'g SceneGraph
      \<Rightarrow> Shape \<times> 'g SceneGraph" where
  "makeShape E urdfShape urdfMaterial localInertiaFrame flags graph =
     (let frame = transform_mult E (transform_inverse E localInertiaFrame)
                    (m_linkLocalFrame urdfShape);
          (material, graph') = makeShape_material E urdfMaterial graph;
          geometry = m_geometry urdfShape
      in if m_type geometry = URDF_GEOM_BOX then
           (Shape_of Cube (makePose E frame (m_boxSize geometry)) (Some material) None, graph')
         else if m_type geometry = URDF_GEOM_SPHERE then
           (let r = m_sphereRadius geometry
            in (Shape_of Sphere (makePose E frame \<lparr>vec_x = r, vec_y = r, vec_z = r\<rparr>)
                  (Some material) None, graph'))
         else if m_type geometry = URDF_GEOM_CYLINDER then
           (let r = m_capsuleRadius geometry; h = m_capsuleHeight geometry
            in (Shape_of Cylinder (makePose E frame \<lparr>vec_x = r, vec_y = r, vec_z = h\<rparr>)
                  (Some material) None, graph'))
         else if m_type geometry = URDF_GEOM_CAPSULE then
           (let r = m_capsuleRadius geometry; h = m_capsuleHeight geometry
            in (Shape_of Capsule (makePose E frame \<lparr>vec_x = r, vec_y = r, vec_z = h\<rparr>)
                  (Some material) None, graph'))
         else if m_type geometry = URDF_GEOM_PLANE then
           (let frame' = makeShape_planeFrame E frame (m_planeNormal geometry)
            in (Shape_of Plane (makePose E frame' \<lparr>vec_x = 1, vec_y = 1, vec_z = 1\<rparr>)
                  (Some material) None, graph'))
         else if m_type geometry = URDF_GEOM_MESH then
           (let pose = makePose E frame (m_meshScale geometry);
                mesh = (if m_meshFileType geometry = MEMORY_VERTICES
                        then Mesh_data (getMeshData E geometry)
                        else Mesh_file (m_meshFileName geometry));
                material' = (if flags AND URDF_USE_MATERIAL_COLORS_FROM_MTL E \<noteq> 0
                             then None else Some material)
            in (Shape_of Mesh pose material' (Some mesh), graph'))
         else if m_type geometry = URDF_GEOM_HEIGHTFIELD then
           (let pose = makePose E frame \<lparr>vec_x = 1, vec_y = 1, vec_z = 1\<rparr>;
                mesh = Mesh_data (getMeshData E geometry)
            in (Shape_of Heightfield pose (Some material) (Some mesh), graph'))
         else (Shape_default, graph'))"

section \<open>makeVisualShapeData\<close>

abbreviation NUL :: char where
  "NUL \<equiv> CHR 0x00"

text \<open>
  \<^verbatim>\<open>strncpy(dest, src, n)\<close> of the C library stores exactly \<open>n\<close> bytes at the start of
  \<open>dest\<close>: the bytes of \<open>src\<close> up to its first zero byte, then zero bytes while there
  is room, and no zero byte when \<open>src\<close> has \<open>n\<close> bytes or more before its end.
  \<open>strncpy src n\<close> is the list of the bytes stored; the end of the list \<open>src\<close> is the
  terminator that \<^verbatim>\<open>c_str()\<close> supplies.
\<close>

fun strncpy :: "string \<Rightarrow> nat \<Rightarrow> string" where
  "strncpy src 0 = []"
| "strncpy [] (Suc n) = NUL # strncpy [] n"
| "strncpy (c # cs) (Suc n) = (if c = NUL then NUL # strncpy [] n else c # strncpy cs n)"

text \<open>
  Bullet's struct \<^verbatim>\<open>b3VisualShapeData\<close>. The array \<^verbatim>\<open>m_meshAssetFileName\<close> has
  \<^verbatim>\<open>VISUAL_SHAPE_MAX_PATH_LEN\<close> bytes; its value here is the list of the bytes that
  the call of \<^verbatim>\<open>strncpy\<close> stored in it, from index 0. The colour of the struct is
  \<open>b3_rgbaColor\<close>, since \<open>m_rgbaColor\<close> names the colour of the URDF material.
\<close>

record b3VisualShapeData =
  m_objectUniqueId :: int
  m_linkIndex :: int
  m_localVisualFrame :: "real list"
  m_visualGeometryType :: UrdfGeomTypes
  m_dimensions :: "real list"
  b3_rgbaColor :: "real list"
  m_meshAssetFileName :: string
  m_textureUniqueId :: int
  m_openglTextureId :: int
  m_tinyRendererTextureId :: int

definition makeVisualShapeData ::
    "('t, 'g) env \<Rightarrow> 't UrdfShape \<Rightarrow> UrdfMaterial \<Rightarrow> 't \<Rightarrow> int \<Rightarrow> int \<Rightarrow> b3VisualShapeData" where
  "makeVisualShapeData E urdfShape urdfMaterial localInertiaFrame bodyUniqueId linkIndex =
     (let origin' = getOrigin E localInertiaFrame;
          rotate = getRotation E localInertiaFrame
      in \<lparr>m_objectUniqueId = bodyUniqueId,
          m_linkIndex = linkIndex,
          m_localVisualFrame = [vec_x origin', vec_y origin', vec_z origin',
                                quat_x rotate, quat_y rotate, quat_z rotate, quat_w rotate],
          m_visualGeometryType = m_type (m_geometry urdfShape),
          m_dimensions = [vec_x (m_meshScale (m_geometry urdfShape)),
                          vec_x (m_meshScale (m_geometry urdfShape)),
                          vec_x (m_meshScale (m_geometry urdfShape))],
          b3_rgbaColor = [vec4_x (m_rgbaColor (m_matColor urdfMaterial)),
                          vec4_y (m_rgbaColor (m_matColor urdfMaterial)),
                          vec4_z (m_rgbaColor (m_matColor urdfMaterial)),
                          vec4_w (m_rgbaColor (m_matColor urdfMaterial))],
          m_meshAssetFileName = strncpy (m_textureFilename urdfMaterial)
                                  (VISUAL_SHAPE_MAX_PATH_LEN E),
          m_textureUniqueId = - 1,
          m_openglTextureId = - 1,
          m_tinyRendererTextureId = - 1\<rparr>)"

section \<open>A concrete environment\<close>

text \<open>
  One environment on which the functions run: a transform is a rotation quaternion and
  an origin, composed as rigid motions are; the cast to \<^verbatim>\<open>float\<close> changes nothing
  (a build where \<^verbatim>\<open>btScalar\<close> is \<^verbatim>\<open>float\<close>); the flag and the path length have the
  values of Bullet's header; the registry is the list of the file names registered, and
  the id of a file name is its position there.
\<close>

record rigid =
  rigid_rot :: btQuaternion
  rigid_pos :: btVector3

definition quat_mult :: "btQuaternion \<Rightarrow> btQuaternion \<Rightarrow> btQuaternion" where
  "quat_mult a b =
     \<lparr>quat_x = quat_w a * quat_x b + quat_x a * quat_w b + quat_y a * quat_z b - quat_z a * quat_y b,
      quat_y = quat_w a * quat_y b + quat_y a * quat_w b + quat_z a * quat_x b - quat_x a * quat_z b,
      quat_z = quat_w a * quat_z b + quat_z a * quat_w b + quat_x a * quat_y b - quat_y a * quat_x b,
      quat_w = quat_w a * quat_w b - quat_x a * quat_x b - quat_y a * quat_y b - quat_z a * quat_z b\<rparr>"

definition quat_conj :: "btQuaternion \<Rightarrow> btQuaternion" where
  "quat_conj a = \<lparr>quat_x = - quat_x a, quat_y = - quat_y a, quat_z = - quat_z a, quat_w = quat_w a\<rparr>"

definition quat_rotate :: "btQuaternion \<Rightarrow> btVector3 \<Rightarrow> btVector3" where
  "quat_rotate q v =
     (let p = quat_mult (quat_mult q \<lparr>quat_x = vec_x v, quat_y = vec_y v, quat_z = vec_z v, quat_w = 0\<rparr>)
                (quat_conj q)
      in \<lparr>vec_x = quat_x p, vec_y = quat_y p, vec_z = quat_z p\<rparr>)"

definition rigid_mult :: "rigid \<Rightarrow> rigid \<Rightarrow> rigid" where
  "rigid_mult a b =
     (let r = quat_rotate (rigid_rot a) (rigid_pos b)
      in \<lparr>rigid_rot = quat_mult (rigid_rot a) (rigid_rot b),
          rigid_pos = \<lparr>vec_x = vec_x (rigid_pos a) + vec_x r,
                       vec_y = vec_y (rigid_pos a) + vec_y r,
                       vec_z = vec_z (rigid_pos a) + vec_z r\<rparr>\<rparr>)"

definition rigid_inverse :: "rigid \<Rightarrow> rigid" where
  "rigid_inverse a =
     (let r = quat_rotate (quat_conj (rigid_rot a)) (rigid_pos a)
      in \<lparr>rigid_rot = quat_conj (rigid_rot a),
          rigid_pos = \<lparr>vec_x = - vec_x r, vec_y = - vec_y r, vec_z = - vec_z r\<rparr>\<rparr>)"

definition rigid_of_quat :: "btQuaternion \<Rightarrow> rigid" where
  "rigid_of_quat q = \<lparr>rigid_rot = q, rigid_pos = \<lparr>vec_x = 0, vec_y = 0, vec_z = 0\<rparr>\<rparr>"

definition quat_of_axis_angle :: "btVector3 \<Rightarrow> real \<Rightarrow> btQuaternion" where
  "quat_of_axis_angle axis angle =
     (let s = sin (angle / 2) / btVector3_length axis
      in \<lparr>quat_x = vec_x axis * s, quat_y = vec_y axis * s, quat_z = vec_z axis * s,
          quat_w = cos (angle / 2)\<rparr>)"

fun texture_index :: "string \<Rightarrow> string list \<Rightarrow> nat" where
  "texture_index f [] = 0"
| "texture_index f (g # gs) = (if f = g then 0 else Suc (texture_index f gs))"

definition list_registerTexture :: "string \<Rightarrow> string list \<Rightarrow> int \<times> string list" where
  "list_registerTexture f reg =
     (int (texture_index f reg), if f \<in> set reg then reg else reg @ [f])"

definition rigid_env :: "(rigid, string list) env" where
  "rigid_env =
     \<lparr>to_float = (\<lambda>x. x),
      getOrigin = rigid_pos,
      getRotation = rigid_rot,
      transform_inverse = rigid_inverse,
      transform_mult = rigid_mult,
      btTransform_quat = rigid_of_quat,
      btQuaternion_axis_angle = quat_of_axis_angle,
      URDF_USE_MATERIAL_COLORS_FROM_MTL = 32768,
      VISUAL_SHAPE_MAX_PATH_LEN = 1024,
      registerTexture = list_registerTexture\<rparr>"

definition rigid_identity :: rigid where
  "rigid_identity =
     \<lparr>rigid_rot = \<lparr>quat_x = 0, quat_y = 0, quat_z = 0, quat_w = 1\<rparr>,
      rigid_pos = \<lparr>vec_x = 0, vec_y = 0, vec_z = 0\<rparr>\<rparr>"

text \<open>
  A geometry record with a triangle in memory, a shape and a material built on it, and
  an empty scene graph; the inputs of the concrete runs below are updates of these.
\<close>

definition geometry0 :: UrdfGeometry where
  "geometry0 =
     \<lparr>m_type = URDF_GEOM_MESH,
      m_boxSize = \<lparr>vec_x = 1, vec_y = 2, vec_z = 3\<rparr>,
      m_sphereRadius = 4,
      m_capsuleRadius = 5,
      m_capsuleHeight = 6,
      m_planeNormal = \<lparr>vec_x = 0, vec_y = 0, vec_z = 1\<rparr>,
      m_meshScale = \<lparr>vec_x = 7, vec_y = 8, vec_z = 9\<rparr>,
      m_meshFileType = MEMORY_VERTICES,
      m_meshFileName = ''tri.obj'',
      m_vertices = [\<lparr>vec_x = 0, vec_y = 0, vec_z = 0\<rparr>, \<lparr>vec_x = 1, vec_y = 0, vec_z = 0\<rparr>,
                    \<lparr>vec_x = 0, vec_y = 1, vec_z = 2\<rparr>],
      m_uvs = [\<lparr>vec_x = 0, vec_y = 0, vec_z = 0\<rparr>, \<lparr>vec_x = 1, vec_y = 0, vec_z = 0\<rparr>,
               \<lparr>vec_x = 0, vec_y = 1, vec_z = 0\<rparr>],
      m_normals = [\<lparr>vec_x = 0, vec_y = 0, vec_z = 1\<rparr>],
      m_indices = [0, 1, 2]\<rparr>"

definition shape0 :: "rigid UrdfShape" where
  "shape0 = \<lparr>m_geometry = geometry0, m_linkLocalFrame = rigid_identity\<rparr>"

definition material0 :: UrdfMaterial where
  "material0 =
     \<lparr>m_textureFilename = ''wood.png'',
      m_matColor = \<lparr>m_rgbaColor = \<lparr>vec4_x = 1, vec4_y = 0, vec4_z = 0, vec4_w = 1\<rparr>,
                    m_specularColor = \<lparr>vec_x = 1, vec_y = 1, vec_z = 1\<rparr>\<rparr>\<rparr>"

definition graph0 :: "string list SceneGraph" where
  "graph0 = \<lparr>registry = [], registerTexture_calls = []\<rparr>"

section \<open>The tag of the shape, as the specification states it\<close>

text \<open>
  The specification's table of variant tags: Box to Cube, the other six supported tags
  to the variant of the same name, and no variant for any other tag. It is written from
  the specification's words, to be compared with what \<open>makeShape\<close> computes.
\<close>

fun spec_variant_tag :: "UrdfGeomTypes \<Rightarrow> ShapeType option" where
  "spec_variant_tag URDF_GEOM_BOX = Some Cube"
| "spec_variant_tag URDF_GEOM_SPHERE = Some Sphere"
| "spec_variant_tag URDF_GEOM_CYLINDER = Some Cylinder"
| "spec_variant_tag URDF_GEOM_CAPSULE = Some Capsule"
| "spec_variant_tag URDF_GEOM_PLANE = Some Plane"
| "spec_variant_tag URDF_GEOM_MESH = Some Mesh"
| "spec_variant_tag URDF_GEOM_HEIGHTFIELD = Some Heightfield"
| "spec_variant_tag (URDF_GEOM_OTHER k) = None"

section \<open>Properties of the loop\<close>

lemma push_loop_concat:
  "push_loop body n i acc = acc @ concat (map body [i..<n])"
proof (induction body n i acc rule: push_loop.induct)
  case (1 body n i acc)
  show ?case
  proof (cases "i < n")
    case True
    then have "[i..<n] = i # [Suc i..<n]"
      by (simp add: upt_conv_Cons)
    with True "1.IH" show ?thesis
      by (simp add: push_loop.simps [of body n i acc])
  next
    case False
    then show ?thesis
      by (simp add: push_loop.simps [of body n i acc])
  qed
qed

lemma length_concat_fixed:
  assumes "\<And>i. i < n \<Longrightarrow> length (body i) = k"
  shows "length (concat (map body [0..<n])) = k * n"
  using assms by (induction n) simp_all

lemma nth_concat_fixed:
  assumes "\<And>i. i < n \<Longrightarrow> length (body i) = k" and "i < n" and "j < k"
  shows "concat (map body [0..<n]) ! (k * i + j) = body i ! j"
  using assms
proof (induction n)
  case 0
  then show ?case by simp
next
  case (Suc n)
  have len: "length (concat (map body [0..<n])) = k * n"
    using Suc.prems(1) by (intro length_concat_fixed) simp
  show ?case
  proof (cases "i < n")
    case True
    then have "k * Suc i \<le> k * n"
      by (intro mult_le_mono2) simp
    with \<open>j < k\<close> have "k * i + j < k * n" by simp
    moreover have "concat (map body [0..<n]) ! (k * i + j) = body i ! j"
      using Suc.IH Suc.prems(1) True \<open>j < k\<close> by simp
    ultimately show ?thesis
      by (simp add: nth_append len)
  next
    case False
    with \<open>i < Suc n\<close> have "i = n" by simp
    with \<open>j < k\<close> Suc.prems(1) show ?thesis
      by (simp add: nth_append len)
  qed
qed

lemma push_loop_length:
  assumes "\<And>i. i < n \<Longrightarrow> length (body i) = k"
  shows "length (push_loop body n 0 []) = k * n"
  using assms by (simp add: push_loop_concat length_concat_fixed)

lemma push_loop_nth:
  assumes "\<And>i. i < n \<Longrightarrow> length (body i) = k" and "i < n" and "j < k"
  shows "push_loop body n 0 [] ! (k * i + j) = body i ! j"
  using assms by (simp add: push_loop_concat nth_concat_fixed)

section \<open>Properties of makeShape used by several claims\<close>

lemma makeShape_graph:
  "snd (makeShape E us um lif flags graph) = snd (makeShape_material E um graph)"
  by (simp add: makeShape_def Let_def split: prod.splits)

lemma makeShape_material_empty:
  "m_textureFilename um = [] \<Longrightarrow>
     snd (makeShape_material E um graph) = graph \<and>
     textureId (fst (makeShape_material E um graph)) = - 1"
  by (simp add: makeShape_material_def Let_def)

lemma makeShape_material_nonempty:
  "m_textureFilename um \<noteq> [] \<Longrightarrow>
     snd (makeShape_material E um graph) =
       \<lparr>registry = snd (registerTexture E (m_textureFilename um) (registry graph)),
        registerTexture_calls = registerTexture_calls graph @ [m_textureFilename um]\<rparr> \<and>
     textureId (fst (makeShape_material E um graph)) =
       fst (registerTexture E (m_textureFilename um) (registry graph))"
  by (simp add: makeShape_material_def SceneGraph_registerTexture_def Let_def split: prod.splits)

lemma makeShape_shape_material:
  "shape_material (fst (makeShape E us um lif flags graph)) = None \<or>
   shape_material (fst (makeShape E us um lif flags graph)) = Some (fst (makeShape_material E um graph))"
  by (simp add: makeShape_def Let_def split: prod.splits)

lemma plane_pose:
  assumes "m_type (m_geometry us) = URDF_GEOM_PLANE"
  shows "shape_pose (fst (makeShape E us um lif flags graph)) =
     Some (makePose E
       (makeShape_planeFrame E
          (transform_mult E (transform_inverse E lif) (m_linkLocalFrame us))
          (m_planeNormal (m_geometry us)))
       \<lparr>vec_x = 1, vec_y = 1, vec_z = 1\<rparr>)"
  using assms by (simp add: makeShape_def Let_def split: prod.splits)

section \<open>Properties of the vector operations and of strncpy\<close>

lemma cross_x_z:
  "btVector3_cross \<lparr>vec_x = 1, vec_y = 0, vec_z = 0\<rparr> \<lparr>vec_x = 0, vec_y = 0, vec_z = 1\<rparr> =
     \<lparr>vec_x = 0, vec_y = - 1, vec_z = 0\<rparr>"
  by (simp add: btVector3_cross_def)

lemma length_neg_y: "btVector3_length \<lparr>vec_x = 0, vec_y = - 1, vec_z = 0\<rparr> = 1"
  by (simp add: btVector3_length_def btVector3_dot_def)

lemma btAsin_1: "btAsin 1 = pi / 2"
  by (simp add: btAsin_def)

lemma strncpy_Nil: "strncpy [] n = replicate n NUL"
  by (induction n) simp_all

lemma strncpy_eq:
  "strncpy src n =
     take n (takeWhile (\<lambda>c. c \<noteq> NUL) src) @
     replicate (n - length (takeWhile (\<lambda>c. c \<noteq> NUL) src)) NUL"
proof (induction src n rule: strncpy.induct)
  case (1 src)
  then show ?case by simp
next
  case (2 n)
  then show ?case by (simp add: strncpy_Nil)
next
  case (3 c cs n)
  then show ?case by (simp add: strncpy_Nil)
qed

lemma length_strncpy: "length (strncpy src n) = n"
  by (simp add: strncpy_eq)

lemma strncpy_unterminated:
  assumes "n \<le> length (takeWhile (\<lambda>c. c \<noteq> NUL) src)"
  shows "NUL \<notin> set (strncpy src n)"
proof -
  have "strncpy src n = take n (takeWhile (\<lambda>c. c \<noteq> NUL) src)"
    using assms by (simp add: strncpy_eq)
  moreover have "NUL \<notin> set (takeWhile (\<lambda>c. c \<noteq> NUL) src)"
    by (auto dest: set_takeWhileD)
  ultimately show ?thesis
    by (auto dest: in_set_takeD)
qed

lemma strncpy_terminated:
  assumes "length (takeWhile (\<lambda>c. c \<noteq> NUL) src) < n"
  shows "strncpy src n ! length (takeWhile (\<lambda>c. c \<noteq> NUL) src) = NUL"
  using assms by (simp add: strncpy_eq nth_append)

text \<open>
  In the concrete environment, the rotation that \<open>makeShape\<close> composes for the plane
  normal \<open>(1, 0, 0)\<close>, about \<open>(0, -1, 0)\<close> by a right angle, carries the z axis to
  \<open>(-1, 0, 0)\<close>.
\<close>

lemma plane_rotation_maps_z:
  "quat_rotate (quat_of_axis_angle \<lparr>vec_x = 0, vec_y = - 1, vec_z = 0\<rparr> (pi / 2))
     \<lparr>vec_x = 0, vec_y = 0, vec_z = 1\<rparr> = \<lparr>vec_x = - 1, vec_y = 0, vec_z = 0\<rparr>"
  by (simp add: quat_of_axis_angle_def quat_rotate_def quat_mult_def quat_conj_def
      length_neg_y Let_def sin_45 cos_45)

section \<open>Claim C1: the variant tag follows the geometry tag\<close>

text \<open>
  C1. For every input whose geometry tag is one of the seven supported tags, the shape
  that \<open>makeShape\<close> returns has the variant tag that the specification's table gives
  (Box to Cube, Sphere, Cylinder, Capsule, Plane, Mesh and Heightfield to themselves);
  for every other geometry tag, and only then, \<open>makeShape\<close> returns the default shape.
\<close>

theorem makeShape_variant_tag:
  "shape_type (fst (makeShape E us um lif flags graph)) = spec_variant_tag (m_type (m_geometry us)) \<and>
   (fst (makeShape E us um lif flags graph) = Shape_default) =
     (spec_variant_tag (m_type (m_geometry us)) = None)"
  by (cases "m_type (m_geometry us)") (simp_all add: makeShape_def Let_def split: prod.splits)

text \<open>
  The theorem on a box, on the mesh \<open>shape0\<close> and on a tag outside the seven.
\<close>

theorem makeShape_variant_tag_witness:
  "shape_type (fst (makeShape rigid_env
       (shape0\<lparr>m_geometry := geometry0\<lparr>m_type := URDF_GEOM_BOX\<rparr>\<rparr>)
       material0 rigid_identity 0 graph0)) = Some Cube \<and>
   shape_type (fst (makeShape rigid_env shape0 material0 rigid_identity 0 graph0)) = Some Mesh \<and>
   fst (makeShape rigid_env
       (shape0\<lparr>m_geometry := geometry0\<lparr>m_type := URDF_GEOM_OTHER 8\<rparr>\<rparr>)
       material0 rigid_identity 0 graph0) = Shape_default"
  using makeShape_variant_tag [of rigid_env "shape0\<lparr>m_geometry := geometry0\<lparr>m_type := URDF_GEOM_BOX\<rparr>\<rparr>"
          material0 rigid_identity 0 graph0]
        makeShape_variant_tag [of rigid_env shape0 material0 rigid_identity 0 graph0]
        makeShape_variant_tag [of rigid_env "shape0\<lparr>m_geometry := geometry0\<lparr>m_type := URDF_GEOM_OTHER 8\<rparr>\<rparr>"
          material0 rigid_identity 0 graph0]
  by (simp add: shape0_def geometry0_def)

section \<open>Claim C2: a long texture file name leaves the field without a terminator\<close>

text \<open>
  C2. The claim: for a texture file name longer than \<^verbatim>\<open>VISUAL_SHAPE_MAX_PATH_LEN\<close>,
  \<open>makeVisualShapeData\<close> writes at most that many bytes into \<open>m_meshAssetFileName\<close>
  and the field is null-terminated. The first half holds (\<open>length_strncpy\<close>: exactly
  that many bytes are stored). The second half fails (\<open>strncpy_unterminated\<close>): with
  the path length 1024 and a file name of 1025 letters, the field holds 1024 letters and
  no zero byte.
\<close>

theorem makeVisualShapeData_long_filename_unterminated:
  "VISUAL_SHAPE_MAX_PATH_LEN rigid_env = 1024 \<and>
   length (m_meshAssetFileName (makeVisualShapeData rigid_env shape0
      (material0\<lparr>m_textureFilename := replicate 1025 CHR ''a''\<rparr>) rigid_identity 0 0)) = 1024 \<and>
   m_meshAssetFileName (makeVisualShapeData rigid_env shape0
      (material0\<lparr>m_textureFilename := replicate 1025 CHR ''a''\<rparr>) rigid_identity 0 0)
     = replicate 1024 CHR ''a'' \<and>
   NUL \<notin> set (m_meshAssetFileName (makeVisualShapeData rigid_env shape0
      (material0\<lparr>m_textureFilename := replicate 1025 CHR ''a''\<rparr>) rigid_identity 0 0))"
  by (simp add: makeVisualShapeData_def rigid_env_def strncpy_eq Let_def)

section \<open>Claim C3: getMeshData flattens the four arrays in order\<close>

text \<open>
  C3. For a geometry with N vertices, M uvs, K normals and L indices, the four arrays
  of the result of \<open>getMeshData\<close> have the lengths 3N, 2M, 3K and L, and the order is
  kept: the entries 3i, 3i+1 and 3i+2 of the vertex array are the x, y and z of input
  vertex i, each after the cast to \<^verbatim>\<open>float\<close> that the source applies; likewise for
  the uvs (two entries each) and the normals, and index i is copied as it is.
\<close>

theorem getMeshData_flattens:
  "length (vertices (getMeshData E g)) = 3 * length (m_vertices g) \<and>
   length (uvs (getMeshData E g)) = 2 * length (m_uvs g) \<and>
   length (normals (getMeshData E g)) = 3 * length (m_normals g) \<and>
   length (indices (getMeshData E g)) = length (m_indices g) \<and>
   (\<forall>i < length (m_vertices g).
      vertices (getMeshData E g) ! (3 * i) = to_float E (vec_x (m_vertices g ! i)) \<and>
      vertices (getMeshData E g) ! (3 * i + 1) = to_float E (vec_y (m_vertices g ! i)) \<and>
      vertices (getMeshData E g) ! (3 * i + 2) = to_float E (vec_z (m_vertices g ! i))) \<and>
   (\<forall>i < length (m_uvs g).
      uvs (getMeshData E g) ! (2 * i) = to_float E (vec_x (m_uvs g ! i)) \<and>
      uvs (getMeshData E g) ! (2 * i + 1) = to_float E (vec_y (m_uvs g ! i))) \<and>
   (\<forall>i < length (m_normals g).
      normals (getMeshData E g) ! (3 * i) = to_float E (vec_x (m_normals g ! i)) \<and>
      normals (getMeshData E g) ! (3 * i + 1) = to_float E (vec_y (m_normals g ! i)) \<and>
      normals (getMeshData E g) ! (3 * i + 2) = to_float E (vec_z (m_normals g ! i))) \<and>
   (\<forall>i < length (m_indices g). indices (getMeshData E g) ! i = m_indices g ! i)"
proof -
  let ?v = "\<lambda>i. let vertex = m_vertices g ! i
                in [to_float E (vec_x vertex), to_float E (vec_y vertex), to_float E (vec_z vertex)]"
  let ?u = "\<lambda>i. let uv = m_uvs g ! i in [to_float E (vec_x uv), to_float E (vec_y uv)]"
  let ?n = "\<lambda>i. let normal = m_normals g ! i
                in [to_float E (vec_x normal), to_float E (vec_y normal), to_float E (vec_z normal)]"
  let ?x = "\<lambda>i. [m_indices g ! i]"
  have V: "vertices (getMeshData E g) = push_loop ?v (length (m_vertices g)) 0 []"
    and U: "uvs (getMeshData E g) = push_loop ?u (length (m_uvs g)) 0 []"
    and N: "normals (getMeshData E g) = push_loop ?n (length (m_normals g)) 0 []"
    and X: "indices (getMeshData E g) = push_loop ?x (length (m_indices g)) 0 []"
    by (simp_all add: getMeshData_def Let_def)
  have lv: "\<And>i. length (?v i) = 3" and lu: "\<And>i. length (?u i) = 2"
    and ln: "\<And>i. length (?n i) = 3" and lx: "\<And>i. length (?x i) = 1"
    by (simp_all add: Let_def)
  have len: "length (vertices (getMeshData E g)) = 3 * length (m_vertices g)"
      "length (uvs (getMeshData E g)) = 2 * length (m_uvs g)"
      "length (normals (getMeshData E g)) = 3 * length (m_normals g)"
      "length (indices (getMeshData E g)) = length (m_indices g)"
    using push_loop_length [of _ ?v 3, OF lv] push_loop_length [of _ ?u 2, OF lu]
      push_loop_length [of _ ?n 3, OF ln] push_loop_length [of _ ?x 1, OF lx]
    unfolding V U N X by simp_all
  have vs: "vertices (getMeshData E g) ! (3 * i + j) = ?v i ! j"
    if "i < length (m_vertices g)" "j < 3" for i j
    unfolding V using that by (intro push_loop_nth) (simp_all add: Let_def)
  have us: "uvs (getMeshData E g) ! (2 * i + j) = ?u i ! j"
    if "i < length (m_uvs g)" "j < 2" for i j
    unfolding U using that by (intro push_loop_nth) (simp_all add: Let_def)
  have ns: "normals (getMeshData E g) ! (3 * i + j) = ?n i ! j"
    if "i < length (m_normals g)" "j < 3" for i j
    unfolding N using that by (intro push_loop_nth) (simp_all add: Let_def)
  have xs: "indices (getMeshData E g) ! (1 * i + j) = ?x i ! j"
    if "i < length (m_indices g)" "j < 1" for i j
    unfolding X using that by (intro push_loop_nth) simp_all
  have "vertices (getMeshData E g) ! (3 * i) = to_float E (vec_x (m_vertices g ! i)) \<and>
      vertices (getMeshData E g) ! (3 * i + 1) = to_float E (vec_y (m_vertices g ! i)) \<and>
      vertices (getMeshData E g) ! (3 * i + 2) = to_float E (vec_z (m_vertices g ! i))"
    if "i < length (m_vertices g)" for i
    using vs [OF that, of 0] vs [OF that, of 1] vs [OF that, of 2] by (simp add: Let_def)
  moreover have "uvs (getMeshData E g) ! (2 * i) = to_float E (vec_x (m_uvs g ! i)) \<and>
      uvs (getMeshData E g) ! (2 * i + 1) = to_float E (vec_y (m_uvs g ! i))"
    if "i < length (m_uvs g)" for i
    using us [OF that, of 0] us [OF that, of 1] by (simp add: Let_def)
  moreover have "normals (getMeshData E g) ! (3 * i) = to_float E (vec_x (m_normals g ! i)) \<and>
      normals (getMeshData E g) ! (3 * i + 1) = to_float E (vec_y (m_normals g ! i)) \<and>
      normals (getMeshData E g) ! (3 * i + 2) = to_float E (vec_z (m_normals g ! i))"
    if "i < length (m_normals g)" for i
    using ns [OF that, of 0] ns [OF that, of 1] ns [OF that, of 2] by (simp add: Let_def)
  moreover have "indices (getMeshData E g) ! i = m_indices g ! i"
    if "i < length (m_indices g)" for i
    using xs [OF that, of 0] by simp
  ultimately show ?thesis
    using len by blast
qed

text \<open>
  The theorem at the triangle \<open>geometry0\<close>: nine entries, the last three are vertex 2.
\<close>

theorem getMeshData_flattens_witness:
  "(2::nat) < length (m_vertices geometry0) \<and>
   length (vertices (getMeshData rigid_env geometry0)) = 9 \<and>
   length (uvs (getMeshData rigid_env geometry0)) = 6 \<and>
   length (normals (getMeshData rigid_env geometry0)) = 3 \<and>
   length (indices (getMeshData rigid_env geometry0)) = 3 \<and>
   vertices (getMeshData rigid_env geometry0) ! 6 = 0 \<and>
   vertices (getMeshData rigid_env geometry0) ! 7 = 1 \<and>
   vertices (getMeshData rigid_env geometry0) ! 8 = 2"
proof -
  have h: "(2::nat) < length (m_vertices geometry0)"
    by (simp add: geometry0_def)
  note t = getMeshData_flattens [of rigid_env geometry0]
  from t have "\<forall>i < length (m_vertices geometry0).
      vertices (getMeshData rigid_env geometry0) ! (3 * i) = to_float rigid_env (vec_x (m_vertices geometry0 ! i)) \<and>
      vertices (getMeshData rigid_env geometry0) ! (3 * i + 1) = to_float rigid_env (vec_y (m_vertices geometry0 ! i)) \<and>
      vertices (getMeshData rigid_env geometry0) ! (3 * i + 2) = to_float rigid_env (vec_z (m_vertices geometry0 ! i))"
    by blast
  from this [rule_format, OF h] t h show ?thesis
    by (simp add: geometry0_def rigid_env_def)
qed

section \<open>Claim C4: the three dimensions are one scalar\<close>

text \<open>
  C4. For every input, the three entries of \<open>m_dimensions\<close> that
  \<open>makeVisualShapeData\<close> fills are the first component of the mesh scale, whatever the
  geometry type and the other two components of the mesh scale are.
\<close>

theorem makeVisualShapeData_dimensions:
  "m_dimensions (makeVisualShapeData E us um lif bodyUniqueId linkIndex) =
     [vec_x (m_meshScale (m_geometry us)), vec_x (m_meshScale (m_geometry us)),
      vec_x (m_meshScale (m_geometry us))] \<and>
   m_dimensions (makeVisualShapeData E
       (us\<lparr>m_geometry := (m_geometry us)\<lparr>m_type := t,
             m_meshScale := (m_meshScale (m_geometry us))\<lparr>vec_y := y, vec_z := z\<rparr>\<rparr>\<rparr>)
       um lif bodyUniqueId linkIndex) =
     m_dimensions (makeVisualShapeData E us um lif bodyUniqueId linkIndex)"
  by (simp add: makeVisualShapeData_def Let_def)

section \<open>Claim C5: the flag discards the material of a mesh\<close>

text \<open>
  C5. For every mesh geometry, if the bit \<^verbatim>\<open>URDF_USE_MATERIAL_COLORS_FROM_MTL\<close> is set in
  \<open>flags\<close>, the shape that \<open>makeShape\<close> returns has no material, whatever the colours
  and the texture of the input material are.
\<close>

theorem makeShape_mesh_material_discard:
  assumes "m_type (m_geometry us) = URDF_GEOM_MESH"
    and "flags AND URDF_USE_MATERIAL_COLORS_FROM_MTL E \<noteq> 0"
  shows "shape_material (fst (makeShape E us um lif flags graph)) = None \<and>
         shape_type (fst (makeShape E us um lif flags graph)) = Some Mesh"
  using assms by (simp add: makeShape_def Let_def split: prod.splits)

text \<open>
  The theorem on the mesh \<open>shape0\<close> with the flags \<open>32769\<close>.
\<close>

theorem makeShape_mesh_material_discard_witness:
  "m_type (m_geometry shape0) = URDF_GEOM_MESH \<and>
   (32769 :: 32 word) AND URDF_USE_MATERIAL_COLORS_FROM_MTL rigid_env \<noteq> 0 \<and>
   shape_material (fst (makeShape rigid_env shape0 material0 rigid_identity 32769 graph0)) = None"
proof -
  have h1: "m_type (m_geometry shape0) = URDF_GEOM_MESH"
    by (simp add: shape0_def geometry0_def)
  have h2: "(32769 :: 32 word) AND URDF_USE_MATERIAL_COLORS_FROM_MTL rigid_env \<noteq> 0"
    by (simp add: rigid_env_def)
  from makeShape_mesh_material_discard [OF h1 h2] h1 h2 show ?thesis
    by simp
qed

section \<open>Claim C6: registerTexture is called for a non-empty file name only\<close>

text \<open>
  C6. For every call of \<open>makeShape\<close>: if the texture file name is empty, the scene
  graph is returned as it was (no call of \<^verbatim>\<open>registerTexture\<close>) and the texture id of
  the material built is \<open>-1\<close>; if it is not empty, exactly one call of
  \<^verbatim>\<open>registerTexture\<close> is added, with that file name, and the id it returns is the
  texture id of the material built. The material of the returned shape is that material
  or null.
\<close>

theorem makeShape_texture_registration:
  "(m_textureFilename um = [] \<longrightarrow>
      snd (makeShape E us um lif flags graph) = graph \<and>
      textureId (fst (makeShape_material E um graph)) = - 1) \<and>
   (m_textureFilename um \<noteq> [] \<longrightarrow>
      registerTexture_calls (snd (makeShape E us um lif flags graph)) =
        registerTexture_calls graph @ [m_textureFilename um] \<and>
      registry (snd (makeShape E us um lif flags graph)) =
        snd (registerTexture E (m_textureFilename um) (registry graph)) \<and>
      textureId (fst (makeShape_material E um graph)) =
        fst (registerTexture E (m_textureFilename um) (registry graph))) \<and>
   (shape_material (fst (makeShape E us um lif flags graph)) = None \<or>
    shape_material (fst (makeShape E us um lif flags graph)) =
      Some (fst (makeShape_material E um graph)))"
proof (cases "m_textureFilename um = []")
  case True
  with makeShape_material_empty [OF True, of E graph] makeShape_shape_material [of E us um lif flags graph]
  show ?thesis
    by (simp add: makeShape_graph)
next
  case False
  with makeShape_material_nonempty [OF False, of E graph] makeShape_shape_material [of E us um lif flags graph]
  show ?thesis
    by (simp add: makeShape_graph)
qed

text \<open>
  The theorem without a texture and with the texture \<open>wood.png\<close>, on an empty scene graph.
\<close>

theorem makeShape_texture_registration_witness:
  "m_textureFilename (material0\<lparr>m_textureFilename := []\<rparr>) = [] \<and>
   m_textureFilename material0 \<noteq> [] \<and>
   snd (makeShape rigid_env shape0 (material0\<lparr>m_textureFilename := []\<rparr>) rigid_identity 0 graph0) = graph0 \<and>
   textureId (fst (makeShape_material rigid_env (material0\<lparr>m_textureFilename := []\<rparr>) graph0)) = - 1 \<and>
   registerTexture_calls (snd (makeShape rigid_env shape0 material0 rigid_identity 0 graph0)) =
     [''wood.png''] \<and>
   registry (snd (makeShape rigid_env shape0 material0 rigid_identity 0 graph0)) = [''wood.png''] \<and>
   textureId (fst (makeShape_material rigid_env material0 graph0)) = 0"
proof -
  have h1: "m_textureFilename (material0\<lparr>m_textureFilename := []\<rparr>) = []"
    by simp
  have h2: "m_textureFilename material0 \<noteq> []" and n: "m_textureFilename material0 = ''wood.png''"
    by (simp_all add: material0_def)
  have r: "registerTexture rigid_env ''wood.png'' (registry graph0) = (0, [''wood.png''])"
      "registerTexture_calls graph0 = []"
    by (simp_all add: rigid_env_def graph0_def list_registerTexture_def)
  from makeShape_texture_registration [of "material0\<lparr>m_textureFilename := []\<rparr>" rigid_env shape0
         rigid_identity 0 graph0]
       makeShape_texture_registration [of material0 rigid_env shape0 rigid_identity 0 graph0]
       h1 h2
  show ?thesis
    by (simp add: n r)
qed

section \<open>Claim C7: the frame of a plane\<close>

text \<open>
  C7. For every plane geometry: when the dot product of the normal with \<open>(0, 0, 1)\<close> is
  at least 0.99, as it is for the normal \<open>(0, 0, 1)\<close>, no rotation is composed and the
  pose is built from the input frame; when the normal is \<open>(1, 0, 0)\<close>, the frame is
  multiplied by the rotation whose axis is the cross product of the normal and
  \<open>(0, 0, 1)\<close>, which is \<open>(0, -1, 0)\<close>, and whose angle is the arcsine of the length of
  that axis, a right angle.
\<close>

theorem makeShape_plane_rotation:
  assumes "m_type (m_geometry us) = URDF_GEOM_PLANE"
  shows
    "(let frame = transform_mult E (transform_inverse E lif) (m_linkLocalFrame us);
          n = m_planeNormal (m_geometry us);
          z = \<lparr>vec_x = 0, vec_y = 0, vec_z = 1\<rparr>;
          axis = btVector3_cross n z;
          pose = shape_pose (fst (makeShape E us um lif flags graph))
      in (99 / 100 \<le> btVector3_dot n z \<longrightarrow>
            pose = Some (makePose E frame \<lparr>vec_x = 1, vec_y = 1, vec_z = 1\<rparr>)) \<and>
         (n = z \<longrightarrow> 99 / 100 \<le> btVector3_dot n z) \<and>
         (n = \<lparr>vec_x = 1, vec_y = 0, vec_z = 0\<rparr> \<longrightarrow>
            pose = Some (makePose E
                     (transform_mult E frame
                        (btTransform_quat E
                           (btQuaternion_axis_angle E axis (btAsin (btVector3_length axis)))))
                     \<lparr>vec_x = 1, vec_y = 1, vec_z = 1\<rparr>) \<and>
            axis = \<lparr>vec_x = 0, vec_y = - 1, vec_z = 0\<rparr> \<and>
            btAsin (btVector3_length axis) = pi / 2))"
proof -
  let ?z = "\<lparr>vec_x = 0, vec_y = 0, vec_z = 1\<rparr>"
  let ?x = "\<lparr>vec_x = 1, vec_y = 0, vec_z = 0\<rparr>"
  have dz: "btVector3_dot ?z ?z = 1" and dx: "btVector3_dot ?x ?z = 0"
    by (simp_all add: btVector3_dot_def)
  show ?thesis
    unfolding Let_def plane_pose [OF assms]
    by (auto simp add: makeShape_planeFrame_def Let_def dz dx cross_x_z length_neg_y btAsin_1)
qed

text \<open>
  The theorem on the normals \<open>(0, 0, 1)\<close> and \<open>(1, 0, 0)\<close>, with identity frames.
\<close>

theorem makeShape_plane_rotation_witness:
  "m_type (m_geometry (shape0\<lparr>m_geometry := geometry0\<lparr>m_type := URDF_GEOM_PLANE\<rparr>\<rparr>)) = URDF_GEOM_PLANE \<and>
   99 / 100 \<le> btVector3_dot (m_planeNormal (geometry0\<lparr>m_type := URDF_GEOM_PLANE\<rparr>))
                  \<lparr>vec_x = 0, vec_y = 0, vec_z = 1\<rparr> \<and>
   shape_pose (fst (makeShape rigid_env (shape0\<lparr>m_geometry := geometry0\<lparr>m_type := URDF_GEOM_PLANE\<rparr>\<rparr>)
       material0 rigid_identity 0 graph0)) =
     Some \<lparr>origin = (0, 0, 0), quat = (1, 0, 0, 0), scale = (1, 1, 1)\<rparr> \<and>
   shape_pose (fst (makeShape rigid_env
       (shape0\<lparr>m_geometry := geometry0\<lparr>m_type := URDF_GEOM_PLANE,
                  m_planeNormal := \<lparr>vec_x = 1, vec_y = 0, vec_z = 0\<rparr>\<rparr>\<rparr>)
       material0 rigid_identity 0 graph0)) =
     Some \<lparr>origin = (0, 0, 0), quat = (sqrt 2 / 2, 0, - (sqrt 2 / 2), 0), scale = (1, 1, 1)\<rparr>"
proof -
  let ?us1 = "shape0\<lparr>m_geometry := geometry0\<lparr>m_type := URDF_GEOM_PLANE\<rparr>\<rparr>"
  let ?us2 = "shape0\<lparr>m_geometry := geometry0\<lparr>m_type := URDF_GEOM_PLANE,
                  m_planeNormal := \<lparr>vec_x = 1, vec_y = 0, vec_z = 0\<rparr>\<rparr>\<rparr>"
  have h1: "m_type (m_geometry ?us1) = URDF_GEOM_PLANE"
    and h2: "m_type (m_geometry ?us2) = URDF_GEOM_PLANE"
    by simp_all
  have d: "99 / 100 \<le> btVector3_dot (m_planeNormal (geometry0\<lparr>m_type := URDF_GEOM_PLANE\<rparr>))
                  \<lparr>vec_x = 0, vec_y = 0, vec_z = 1\<rparr>"
    by (simp add: geometry0_def btVector3_dot_def)
  have f: "rigid_mult (rigid_inverse rigid_identity) rigid_identity = rigid_identity"
    by (simp add: rigid_mult_def rigid_inverse_def rigid_identity_def quat_rotate_def
        quat_mult_def quat_conj_def Let_def)
  have q: "rigid_mult rigid_identity
             (rigid_of_quat (quat_of_axis_angle \<lparr>vec_x = 0, vec_y = - 1, vec_z = 0\<rparr> (pi / 2))) =
           \<lparr>rigid_rot = \<lparr>quat_x = 0, quat_y = - (sqrt 2 / 2), quat_z = 0, quat_w = sqrt 2 / 2\<rparr>,
            rigid_pos = \<lparr>vec_x = 0, vec_y = 0, vec_z = 0\<rparr>\<rparr>"
    by (simp add: rigid_mult_def rigid_identity_def rigid_of_quat_def quat_of_axis_angle_def
        quat_rotate_def quat_mult_def quat_conj_def length_neg_y Let_def sin_45 cos_45)
  have sel: "transform_mult rigid_env = rigid_mult" "transform_inverse rigid_env = rigid_inverse"
      "btTransform_quat rigid_env = rigid_of_quat"
      "btQuaternion_axis_angle rigid_env = quat_of_axis_angle"
      "to_float rigid_env = (\<lambda>x. x)" "getOrigin rigid_env = rigid_pos"
      "getRotation rigid_env = rigid_rot"
    by (simp_all add: rigid_env_def)
  have in1: "m_planeNormal geometry0 = \<lparr>vec_x = 0, vec_y = 0, vec_z = 1\<rparr>"
      "m_linkLocalFrame shape0 = rigid_identity"
    by (simp_all add: shape0_def geometry0_def)
  have p1: "shape_pose (fst (makeShape rigid_env ?us1 material0 rigid_identity 0 graph0)) =
      Some (makePose rigid_env rigid_identity \<lparr>vec_x = 1, vec_y = 1, vec_z = 1\<rparr>)"
    using makeShape_plane_rotation [OF h1, where E = rigid_env and lif = rigid_identity
        and flags = 0 and graph = graph0 and um = material0]
    by (simp add: Let_def in1 sel f btVector3_dot_def)
  have p2: "shape_pose (fst (makeShape rigid_env ?us2 material0 rigid_identity 0 graph0)) =
      Some (makePose rigid_env
        \<lparr>rigid_rot = \<lparr>quat_x = 0, quat_y = - (sqrt 2 / 2), quat_z = 0, quat_w = sqrt 2 / 2\<rparr>,
         rigid_pos = \<lparr>vec_x = 0, vec_y = 0, vec_z = 0\<rparr>\<rparr> \<lparr>vec_x = 1, vec_y = 1, vec_z = 1\<rparr>)"
    using makeShape_plane_rotation [OF h2, where E = rigid_env and lif = rigid_identity
        and flags = 0 and graph = graph0 and um = material0]
    by (simp add: Let_def in1 sel f q cross_x_z length_neg_y btAsin_1)
  show ?thesis
    unfolding p1 p2 using h1 d
    by (simp add: makePose_def sel rigid_identity_def)
qed

section \<open>Claim C8: cylinder and capsule share the scale\<close>

text \<open>
  C8. For every cylinder and every capsule geometry, the scale of the pose of the shape
  that \<open>makeShape\<close> returns is (capsule radius, capsule radius, capsule height), each
  after the cast to \<^verbatim>\<open>float\<close>.
\<close>

theorem makeShape_cylinder_capsule_scale:
  assumes "m_type (m_geometry us) = URDF_GEOM_CYLINDER \<or> m_type (m_geometry us) = URDF_GEOM_CAPSULE"
  shows "map_option scale (shape_pose (fst (makeShape E us um lif flags graph))) =
           Some (to_float E (m_capsuleRadius (m_geometry us)),
                 to_float E (m_capsuleRadius (m_geometry us)),
                 to_float E (m_capsuleHeight (m_geometry us)))"
  using assms by (auto simp add: makeShape_def makePose_def Let_def split: prod.splits)

text \<open>
  The theorem on a cylinder and on a capsule with radius 5 and height 6.
\<close>

theorem makeShape_cylinder_capsule_scale_witness:
  "m_type (m_geometry (shape0\<lparr>m_geometry := geometry0\<lparr>m_type := URDF_GEOM_CYLINDER\<rparr>\<rparr>)) = URDF_GEOM_CYLINDER \<and>
   m_type (m_geometry (shape0\<lparr>m_geometry := geometry0\<lparr>m_type := URDF_GEOM_CAPSULE\<rparr>\<rparr>)) = URDF_GEOM_CAPSULE \<and>
   map_option scale (shape_pose (fst (makeShape rigid_env
       (shape0\<lparr>m_geometry := geometry0\<lparr>m_type := URDF_GEOM_CYLINDER\<rparr>\<rparr>)
       material0 rigid_identity 0 graph0))) = Some (5, 5, 6) \<and>
   map_option scale (shape_pose (fst (makeShape rigid_env
       (shape0\<lparr>m_geometry := geometry0\<lparr>m_type := URDF_GEOM_CAPSULE\<rparr>\<rparr>)
       material0 rigid_identity 0 graph0))) = Some (5, 5, 6)"
proof -
  let ?cyl = "shape0\<lparr>m_geometry := geometry0\<lparr>m_type := URDF_GEOM_CYLINDER\<rparr>\<rparr>"
  let ?cap = "shape0\<lparr>m_geometry := geometry0\<lparr>m_type := URDF_GEOM_CAPSULE\<rparr>\<rparr>"
  have h1: "m_type (m_geometry ?cyl) = URDF_GEOM_CYLINDER \<or> m_type (m_geometry ?cyl) = URDF_GEOM_CAPSULE"
    and h2: "m_type (m_geometry ?cap) = URDF_GEOM_CYLINDER \<or> m_type (m_geometry ?cap) = URDF_GEOM_CAPSULE"
    by simp_all
  have g: "m_capsuleRadius geometry0 = 5" "m_capsuleHeight geometry0 = 6"
    by (simp_all add: geometry0_def)
  have c: "to_float rigid_env = (\<lambda>x. x)"
    by (simp add: rigid_env_def)
  from makeShape_cylinder_capsule_scale [OF h1, where E = rigid_env and um = material0
         and lif = rigid_identity and flags = 0 and graph = graph0]
       makeShape_cylinder_capsule_scale [OF h2, where E = rigid_env and um = material0
         and lif = rigid_identity and flags = 0 and graph = graph0]
  show ?thesis
    by (simp add: g c)
qed

section \<open>Claim C9: the texture ids are -1\<close>

text \<open>
  C9. For every input, \<open>makeVisualShapeData\<close> sets \<open>m_textureUniqueId\<close>,
  \<open>m_openglTextureId\<close> and \<open>m_tinyRendererTextureId\<close> to \<open>-1\<close>.
\<close>

theorem makeVisualShapeData_texture_ids:
  "m_textureUniqueId (makeVisualShapeData E us um lif bodyUniqueId linkIndex) = - 1 \<and>
   m_openglTextureId (makeVisualShapeData E us um lif bodyUniqueId linkIndex) = - 1 \<and>
   m_tinyRendererTextureId (makeVisualShapeData E us um lif bodyUniqueId linkIndex) = - 1"
  by (simp add: makeVisualShapeData_def Let_def)

section \<open>Claim C10: the texture is registered whatever the geometry is\<close>

text \<open>
  C10. For every call of \<open>makeShape\<close> with a non-empty texture file name, the scene
  graph returned is the one after the call of \<^verbatim>\<open>registerTexture\<close>, whatever the shape
  and the flags are: also when the geometry tag is not supported, where the default shape
  is returned and carries no material, and when the flag of a mesh discards the material
  that holds the id.
\<close>

theorem makeShape_registers_before_dispatch:
  assumes "m_textureFilename um \<noteq> []"
  shows "snd (makeShape E us um lif flags graph) =
           snd (SceneGraph_registerTexture E (m_textureFilename um) graph) \<and>
         registerTexture_calls (snd (makeShape E us um lif flags graph)) =
           registerTexture_calls graph @ [m_textureFilename um] \<and>
         (m_type (m_geometry us) = URDF_GEOM_OTHER k \<longrightarrow>
            fst (makeShape E us um lif flags graph) = Shape_default \<and>
            shape_material (fst (makeShape E us um lif flags graph)) = None) \<and>
         (m_type (m_geometry us) = URDF_GEOM_MESH \<and>
          flags AND URDF_USE_MATERIAL_COLORS_FROM_MTL E \<noteq> 0 \<longrightarrow>
            shape_material (fst (makeShape E us um lif flags graph)) = None)"
proof -
  have "snd (makeShape_material E um graph) =
          snd (SceneGraph_registerTexture E (m_textureFilename um) graph)"
    using assms
    by (simp add: makeShape_material_def Let_def split: prod.splits)
  moreover have "registerTexture_calls (snd (makeShape_material E um graph)) =
      registerTexture_calls graph @ [m_textureFilename um]"
    using makeShape_material_nonempty [OF assms, of E graph] by simp
  moreover have "fst (makeShape E us um lif flags graph) = Shape_default"
    if "m_type (m_geometry us) = URDF_GEOM_OTHER k"
    using that by (simp add: makeShape_def Let_def split: prod.splits)
  moreover have "shape_material (fst (makeShape E us um lif flags graph)) = None"
    if "m_type (m_geometry us) = URDF_GEOM_MESH"
      and "flags AND URDF_USE_MATERIAL_COLORS_FROM_MTL E \<noteq> 0"
    using that by (simp add: makeShape_def Let_def split: prod.splits)
  ultimately show ?thesis
    by (simp add: makeShape_graph)
qed

text \<open>
  The theorem on an unsupported tag and on the mesh \<open>shape0\<close> with the flag set.
\<close>

theorem makeShape_registers_before_dispatch_witness:
  "m_textureFilename material0 \<noteq> [] \<and>
   m_type (m_geometry (shape0\<lparr>m_geometry := geometry0\<lparr>m_type := URDF_GEOM_OTHER 8\<rparr>\<rparr>)) = URDF_GEOM_OTHER 8 \<and>
   fst (makeShape rigid_env (shape0\<lparr>m_geometry := geometry0\<lparr>m_type := URDF_GEOM_OTHER 8\<rparr>\<rparr>)
          material0 rigid_identity 0 graph0) = Shape_default \<and>
   registerTexture_calls (snd (makeShape rigid_env
          (shape0\<lparr>m_geometry := geometry0\<lparr>m_type := URDF_GEOM_OTHER 8\<rparr>\<rparr>)
          material0 rigid_identity 0 graph0)) = [''wood.png''] \<and>
   m_type (m_geometry shape0) = URDF_GEOM_MESH \<and>
   (32768 :: 32 word) AND URDF_USE_MATERIAL_COLORS_FROM_MTL rigid_env \<noteq> 0 \<and>
   shape_material (fst (makeShape rigid_env shape0 material0 rigid_identity 32768 graph0)) = None \<and>
   registerTexture_calls (snd (makeShape rigid_env shape0 material0 rigid_identity 32768 graph0)) =
     [''wood.png'']"
proof -
  let ?other = "shape0\<lparr>m_geometry := geometry0\<lparr>m_type := URDF_GEOM_OTHER 8\<rparr>\<rparr>"
  have h: "m_textureFilename material0 \<noteq> []" and n: "m_textureFilename material0 = ''wood.png''"
    by (simp_all add: material0_def)
  have t1: "m_type (m_geometry ?other) = URDF_GEOM_OTHER 8"
    by simp
  have t2: "m_type (m_geometry shape0) = URDF_GEOM_MESH"
    by (simp add: shape0_def geometry0_def)
  have f: "(32768 :: 32 word) AND URDF_USE_MATERIAL_COLORS_FROM_MTL rigid_env \<noteq> 0"
    by (simp add: rigid_env_def)
  have c: "registerTexture_calls graph0 = []"
    by (simp add: graph0_def)
  note r1 = makeShape_registers_before_dispatch [OF h, where E = rigid_env and us = ?other
         and lif = rigid_identity and flags = 0 and graph = graph0 and k = 8]
  note r2 = makeShape_registers_before_dispatch [OF h, where E = rigid_env and us = shape0
         and lif = rigid_identity and flags = 32768 and graph = graph0 and k = 8]
  have a1: "registerTexture_calls (snd (makeShape rigid_env ?other material0 rigid_identity 0 graph0)) =
      registerTexture_calls graph0 @ [m_textureFilename material0]"
    by (rule r1 [THEN conjunct2, THEN conjunct1])
  have a2: "fst (makeShape rigid_env ?other material0 rigid_identity 0 graph0) = Shape_default"
    using r1 t1 by blast
  have b1: "registerTexture_calls (snd (makeShape rigid_env shape0 material0 rigid_identity 32768 graph0)) =
      registerTexture_calls graph0 @ [m_textureFilename material0]"
    by (rule r2 [THEN conjunct2, THEN conjunct1])
  have b2: "shape_material (fst (makeShape rigid_env shape0 material0 rigid_identity 32768 graph0)) = None"
    using r2 t2 f by blast
  from h t1 t2 f show ?thesis
    unfolding a1 a2 b1 b2 by (simp add: n c)
qed

end
